theory Spec2Isabelle
  imports Complex_Main
begin

section \<open>The BGE-M3 embedding server (docker/bge-m3/server.py)\<close>

text \<open>
  The server is four Flask handlers around one call of the model library,
  \<^verbatim>\<open>model.encode\<close>, and one helper, \<^verbatim>\<open>sparse_to_dict\<close>. The embedding below
  follows the handlers statement by statement. The model library is not part of
  the repository: it is a parameter of every handler. What a handler does to the
  process (it calls the model, which may keep state of its own) is written as
  explicit state passing over a \<open>world\<close>.
\<close>

subsection \<open>Python values\<close>

text \<open>
  The value \<^verbatim>\<open>request.get_json()\<close> hands to a handler, and the value a handler
  hands to \<^verbatim>\<open>jsonify\<close>: \<^verbatim>\<open>None\<close>, a bool, an int, a float, a str, a list or a
  dict with string keys. A dict is the list of its items in iteration order. A
  float is the number it denotes: the handlers do no arithmetic, and the
  conversions they apply (\<^verbatim>\<open>float(v)\<close>, \<^verbatim>\<open>ndarray.tolist()\<close>) keep the number.
\<close>

datatype json =
    JNull
  | JBool bool
  | JInt int
  | JFloat real
  | JStr string
  | JArr "json list"
  | JObj "(string \<times> json) list"

text \<open>The exceptions a handler can end with; none of them is caught in the source.\<close>

datatype error =
    AttributeError
  | IndexError
  | InferenceFailure string

text \<open>Python's truth value of a parsed JSON value, as \<^verbatim>\<open>not text\<close> tests it.\<close>

fun truthy :: "json \<Rightarrow> bool" where
  "truthy JNull = False"
| "truthy (JBool b) = b"
| "truthy (JInt i) = (i \<noteq> 0)"
| "truthy (JFloat r) = (r \<noteq> 0)"
| "truthy (JStr s) = (s \<noteq> [])"
| "truthy (JArr xs) = (xs \<noteq> [])"
| "truthy (JObj kvs) = (kvs \<noteq> [])"

text \<open>
  \<^verbatim>\<open>data.get(key, default)\<close>: only a dict has the method; on \<^verbatim>\<open>None\<close> and on
  every other parsed value the attribute lookup raises.
\<close>

fun dict_get :: "json \<Rightarrow> string \<Rightarrow> json \<Rightarrow> error + json" where
  "dict_get (JObj kvs) k d = Inr (case map_of kvs k of None \<Rightarrow> d | Some v \<Rightarrow> v)"
| "dict_get _ k d = Inl AttributeError"

text \<open>\<^verbatim>\<open>xs[0]\<close> raises on an empty sequence.\<close>

fun index0 :: "'a list \<Rightarrow> error + 'a" where
  "index0 [] = Inl IndexError"
| "index0 (x # xs) = Inr x"

subsection \<open>The model library\<close>

text \<open>
  One call of \<^verbatim>\<open>model.encode\<close> with the keyword arguments the handlers write,
  and the part of its result the handlers read, in the shape the library gives
  it for a list of sentences: \<^verbatim>\<open>dense_vecs\<close>, one vector per input, and
  \<^verbatim>\<open>lexical_weights\<close>, one dict per input. A lexical-weight dict is the list of its
  items in iteration order; a key is the token id it denotes, so \<^verbatim>\<open>int(k)\<close> is
  that id.
\<close>

record encode_call =
  sentences :: json
  max_length :: int
  return_dense :: bool
  return_sparse :: bool
  return_colbert_vecs :: bool

type_synonym lexical_weights_dict = "(int \<times> real) list"

record encode_result =
  dense_vecs :: "real list list"
  lexical_weights :: "lexical_weights_dict list"

text \<open>
  The library may keep state \<open>'m\<close> between calls (caches, device state); a call
  returns a result or raises, and leaves a new state.
\<close>

type_synonym 'm encoder = "encode_call \<Rightarrow> 'm \<Rightarrow> (error + encode_result) \<times> 'm"

text \<open>The process as a handler sees it: the model's state and the calls made so far.\<close>

record 'm world =
  model_state :: 'm
  calls :: "encode_call list"

definition model_encode ::
  "'m encoder \<Rightarrow> encode_call \<Rightarrow> 'm world \<Rightarrow> (error + encode_result) \<times> 'm world" where
  "model_encode enc c w =
     (case enc c (model_state w) of
        (r, m') \<Rightarrow> (r, \<lparr>model_state = m', calls = calls w @ [c]\<rparr>))"

subsection \<open>Responses\<close>

datatype response = Response (status: nat) (body: json)

definition tolist :: "real list \<Rightarrow> json" where
  "tolist vec = JArr (map JFloat vec)"

definition validation_error :: "string \<Rightarrow> response" where
  "validation_error msg = Response 400 (JObj [(''error'', JStr msg)])"

subsection \<open>sparse_to_dict\<close>

text \<open>
  \<^verbatim>\<open>lexical_weights.keys()\<close> and \<^verbatim>\<open>lexical_weights.values()\<close> walk the same dict in
  its iteration order. \<open>JInt\<close> is the Python int that \<^verbatim>\<open>int(k)\<close> makes of a key,
  \<open>JFloat\<close> the Python float that \<^verbatim>\<open>float(v)\<close> makes of a weight. The first
  branch is \<^verbatim>\<open>if not lexical_weights\<close>: the empty dict.
\<close>

definition dict_keys :: "('k \<times> 'v) list \<Rightarrow> 'k list" where
  "dict_keys d = map fst d"

definition dict_values :: "('k \<times> 'v) list \<Rightarrow> 'v list" where
  "dict_values d = map snd d"

definition sparse_to_dict :: "lexical_weights_dict \<Rightarrow> json" where
  "sparse_to_dict lw =
     (if lw = [] then JObj [(''indices'', JArr []), (''values'', JArr [])]
      else
        let indices = map JInt (dict_keys lw);
            vals = map JFloat (dict_values lw)
        in JObj [(''indices'', JArr indices), (''values'', JArr vals)])"

subsection \<open>The handlers\<close>

text \<open>
  Each handler takes the model library, the process-wide \<^verbatim>\<open>MAX_LENGTH\<close>, the
  parsed body and the world, and returns the response or the exception it ends
  with, and the world it leaves.
\<close>

definition embed ::
  "'m encoder \<Rightarrow> int \<Rightarrow> json \<Rightarrow> 'm world \<Rightarrow> (error + response) \<times> 'm world" where
  "embed enc MAX_LENGTH data w =
     (case dict_get data ''text'' (JStr '''') of
        Inl e \<Rightarrow> (Inl e, w)
      | Inr text \<Rightarrow>
          if \<not> truthy text then (Inr (validation_error ''text is required''), w)
          else
            (case model_encode enc
                    \<lparr>sentences = JArr [text], max_length = MAX_LENGTH, return_dense = True,
                     return_sparse = False, return_colbert_vecs = False\<rparr> w of
               (Inl e, w') \<Rightarrow> (Inl e, w')
             | (Inr result, w') \<Rightarrow>
                 (case index0 (dense_vecs result) of
                    Inl e \<Rightarrow> (Inl e, w')
                  | Inr v \<Rightarrow> (Inr (Response 200 (JObj [(''embedding'', tolist v)])), w'))))"

definition embed_batch ::
  "'m encoder \<Rightarrow> int \<Rightarrow> json \<Rightarrow> 'm world \<Rightarrow> (error + response) \<times> 'm world" where
  "embed_batch enc MAX_LENGTH data w =
     (case dict_get data ''texts'' (JArr []) of
        Inl e \<Rightarrow> (Inl e, w)
      | Inr texts \<Rightarrow>
          if \<not> truthy texts then (Inr (validation_error ''texts is required''), w)
          else
            (case model_encode enc
                    \<lparr>sentences = texts, max_length = MAX_LENGTH, return_dense = True,
                     return_sparse = False, return_colbert_vecs = False\<rparr> w of
               (Inl e, w') \<Rightarrow> (Inl e, w')
             | (Inr result, w') \<Rightarrow>
                 (Inr (Response 200
                    (JObj [(''embeddings'', JArr (map tolist (dense_vecs result)))])), w')))"

definition embed_full ::
  "'m encoder \<Rightarrow> int \<Rightarrow> json \<Rightarrow> 'm world \<Rightarrow> (error + response) \<times> 'm world" where
  "embed_full enc MAX_LENGTH data w =
     (case dict_get data ''text'' (JStr '''') of
        Inl e \<Rightarrow> (Inl e, w)
      | Inr text \<Rightarrow>
          if \<not> truthy text then (Inr (validation_error ''text is required''), w)
          else
            (case model_encode enc
                    \<lparr>sentences = JArr [text], max_length = MAX_LENGTH, return_dense = True,
                     return_sparse = True, return_colbert_vecs = False\<rparr> w of
               (Inl e, w') \<Rightarrow> (Inl e, w')
             | (Inr result, w') \<Rightarrow>
                 (case index0 (dense_vecs result) of
                    Inl e \<Rightarrow> (Inl e, w')
                  | Inr v \<Rightarrow>
                      (case index0 (lexical_weights result) of
                         Inl e \<Rightarrow> (Inl e, w')
                       | Inr lw \<Rightarrow>
                           (Inr (Response 200
                              (JObj [(''dense'', tolist v),
                                     (''sparse'', sparse_to_dict lw)])), w')))))"

definition embed_batch_full ::
  "'m encoder \<Rightarrow> int \<Rightarrow> json \<Rightarrow> 'm world \<Rightarrow> (error + response) \<times> 'm world" where
  "embed_batch_full enc MAX_LENGTH data w =
     (case dict_get data ''texts'' (JArr []) of
        Inl e \<Rightarrow> (Inl e, w)
      | Inr texts \<Rightarrow>
          if \<not> truthy texts then (Inr (validation_error ''texts is required''), w)
          else
            (case model_encode enc
                    \<lparr>sentences = texts, max_length = MAX_LENGTH, return_dense = True,
                     return_sparse = True, return_colbert_vecs = False\<rparr> w of
               (Inl e, w') \<Rightarrow> (Inl e, w')
             | (Inr result, w') \<Rightarrow>
                 (Inr (Response 200
                    (JObj [(''dense'', JArr (map tolist (dense_vecs result))),
                           (''sparse'', JArr (map sparse_to_dict (lexical_weights result)))])),
                  w')))"

subsection \<open>Shorthands used in the statements\<close>

text \<open>
  The two argument lists the handlers pass to \<^verbatim>\<open>model.encode\<close>, and the value
  \<^verbatim>\<open>data.get(k, d)\<close> reads from a dict body.
\<close>

abbreviation dense_call :: "json \<Rightarrow> int \<Rightarrow> encode_call" where
  "dense_call s ml \<equiv> \<lparr>sentences = s, max_length = ml, return_dense = True,
     return_sparse = False, return_colbert_vecs = False\<rparr>"

abbreviation full_call :: "json \<Rightarrow> int \<Rightarrow> encode_call" where
  "full_call s ml \<equiv> \<lparr>sentences = s, max_length = ml, return_dense = True,
     return_sparse = True, return_colbert_vecs = False\<rparr>"

abbreviation body_field :: "(string \<times> json) list \<Rightarrow> string \<Rightarrow> json \<Rightarrow> json" where
  "body_field kvs k d \<equiv> (case map_of kvs k of None \<Rightarrow> d | Some v \<Rightarrow> v)"

subsection \<open>A stand-in model for the examples\<close>

text \<open>
  A small model library used wherever a property is evaluated on a concrete
  request: a text gets the vector \<open>[length, 1]\<close> and, when it is not empty,
  one lexical weight; anything but a list of sentences is refused. Its state
  counts the calls made, and its answers do not depend on that state.
\<close>

fun stub_vec :: "json \<Rightarrow> real list" where
  "stub_vec (JStr s) = [real (length s), 1]"
| "stub_vec _ = [0, 1]"

fun stub_weights :: "json \<Rightarrow> lexical_weights_dict" where
  "stub_weights (JStr s) = (if s = [] then [] else [(int (length s), 1 / 2), (0, 1)])"
| "stub_weights _ = []"

definition stub_encoder :: "nat encoder" where
  "stub_encoder c m =
     (case sentences c of
        JArr xs \<Rightarrow>
          (Inr \<lparr>dense_vecs = map stub_vec xs,
                lexical_weights = (if return_sparse c then map stub_weights xs else [])\<rparr>,
           Suc m)
      | _ \<Rightarrow> (Inl (InferenceFailure ''sentences must be a list''), Suc m))"

definition fresh_world :: "nat world" where
  "fresh_world = \<lparr>model_state = 0, calls = []\<rparr>"


section \<open>Properties\<close>

subsection \<open>The three ways a handler runs\<close>

text \<open>
  A handler stops at the attribute lookup when the body is not a dict, stops at
  the validation when the field is falsy, and otherwise makes its one call of
  the model and shapes the result.
\<close>

lemma dict_get_not_object:
  "\<forall>kvs. data \<noteq> JObj kvs \<Longrightarrow> dict_get data k d = Inl AttributeError"
  by (cases data) simp_all

lemma not_object:
  assumes "\<forall>kvs. data \<noteq> JObj kvs"
  shows "embed enc ml data w = (Inl AttributeError, w)"
    and "embed_batch enc ml data w = (Inl AttributeError, w)"
    and "embed_full enc ml data w = (Inl AttributeError, w)"
    and "embed_batch_full enc ml data w = (Inl AttributeError, w)"
  using assms
  by (simp_all add: embed_def embed_batch_def embed_full_def embed_batch_full_def
        dict_get_not_object)

lemma rejected_text:
  assumes "\<not> truthy (body_field kvs ''text'' (JStr ''''))"
  shows "embed enc ml (JObj kvs) w = (Inr (validation_error ''text is required''), w)"
    and "embed_full enc ml (JObj kvs) w = (Inr (validation_error ''text is required''), w)"
  using assms by (simp_all add: embed_def embed_full_def)

lemma rejected_texts:
  assumes "\<not> truthy (body_field kvs ''texts'' (JArr []))"
  shows "embed_batch enc ml (JObj kvs) w = (Inr (validation_error ''texts is required''), w)"
    and "embed_batch_full enc ml (JObj kvs) w = (Inr (validation_error ''texts is required''), w)"
  using assms by (simp_all add: embed_batch_def embed_batch_full_def)

lemma embed_validated:
  assumes "truthy (body_field kvs ''text'' (JStr ''''))"
  shows "embed enc ml (JObj kvs) w =
    ((case fst (enc (dense_call (JArr [body_field kvs ''text'' (JStr '''')]) ml)
                 (model_state w)) of
        Inl e \<Rightarrow> Inl e
      | Inr result \<Rightarrow>
          (case index0 (dense_vecs result) of
             Inl e \<Rightarrow> Inl e
           | Inr v \<Rightarrow> Inr (Response 200 (JObj [(''embedding'', tolist v)])))),
     \<lparr>model_state =
        snd (enc (dense_call (JArr [body_field kvs ''text'' (JStr '''')]) ml) (model_state w)),
      calls = calls w @ [dense_call (JArr [body_field kvs ''text'' (JStr '''')]) ml]\<rparr>)"
  using assms by (simp add: embed_def model_encode_def split: prod.split sum.split)

lemma embed_batch_validated:
  assumes "truthy (body_field kvs ''texts'' (JArr []))"
  shows "embed_batch enc ml (JObj kvs) w =
    ((case fst (enc (dense_call (body_field kvs ''texts'' (JArr [])) ml) (model_state w)) of
        Inl e \<Rightarrow> Inl e
      | Inr result \<Rightarrow>
          Inr (Response 200 (JObj [(''embeddings'', JArr (map tolist (dense_vecs result)))]))),
     \<lparr>model_state =
        snd (enc (dense_call (body_field kvs ''texts'' (JArr [])) ml) (model_state w)),
      calls = calls w @ [dense_call (body_field kvs ''texts'' (JArr [])) ml]\<rparr>)"
  using assms by (simp add: embed_batch_def model_encode_def split: prod.split sum.split)

lemma embed_full_validated:
  assumes "truthy (body_field kvs ''text'' (JStr ''''))"
  shows "embed_full enc ml (JObj kvs) w =
    ((case fst (enc (full_call (JArr [body_field kvs ''text'' (JStr '''')]) ml)
                 (model_state w)) of
        Inl e \<Rightarrow> Inl e
      | Inr result \<Rightarrow>
          (case index0 (dense_vecs result) of
             Inl e \<Rightarrow> Inl e
           | Inr v \<Rightarrow>
               (case index0 (lexical_weights result) of
                  Inl e \<Rightarrow> Inl e
                | Inr lw \<Rightarrow>
                    Inr (Response 200
                      (JObj [(''dense'', tolist v), (''sparse'', sparse_to_dict lw)]))))),
     \<lparr>model_state =
        snd (enc (full_call (JArr [body_field kvs ''text'' (JStr '''')]) ml) (model_state w)),
      calls = calls w @ [full_call (JArr [body_field kvs ''text'' (JStr '''')]) ml]\<rparr>)"
  using assms by (simp add: embed_full_def model_encode_def split: prod.split sum.split)

lemma embed_batch_full_validated:
  assumes "truthy (body_field kvs ''texts'' (JArr []))"
  shows "embed_batch_full enc ml (JObj kvs) w =
    ((case fst (enc (full_call (body_field kvs ''texts'' (JArr [])) ml) (model_state w)) of
        Inl e \<Rightarrow> Inl e
      | Inr result \<Rightarrow>
          Inr (Response 200
            (JObj [(''dense'', JArr (map tolist (dense_vecs result))),
                   (''sparse'', JArr (map sparse_to_dict (lexical_weights result)))]))),
     \<lparr>model_state =
        snd (enc (full_call (body_field kvs ''texts'' (JArr [])) ml) (model_state w)),
      calls = calls w @ [full_call (body_field kvs ''texts'' (JArr [])) ml]\<rparr>)"
  using assms by (simp add: embed_batch_full_def model_encode_def split: prod.split sum.split)

subsection \<open>The sparse wire format\<close>

text \<open>
  Claim C1. For every token-id-to-weight mapping, \<open>sparse_to_dict\<close> yields the
  object with the two sequences \<open>indices\<close> and \<open>values\<close>; they have the length
  of the mapping, the i-th index and the i-th value are the key and the weight
  of the i-th entry of the mapping in its own iteration order, and the empty
  mapping gives two empty sequences.
\<close>

theorem sparse_to_dict_parallel:
  "\<exists>is vs.
     sparse_to_dict lw = JObj [(''indices'', JArr is), (''values'', JArr vs)] \<and>
     length is = length vs \<and> length is = length lw \<and>
     zip is vs = map (\<lambda>(k, v). (JInt k, JFloat v)) lw \<and>
     (\<forall>i < length lw. is ! i = JInt (fst (lw ! i)) \<and> vs ! i = JFloat (snd (lw ! i))) \<and>
     (lw = [] \<longrightarrow> is = [] \<and> vs = [])"
proof (cases "lw = []")
  case True
  then show ?thesis by (simp add: sparse_to_dict_def)
next
  case False
  have z: "zip (map (JInt \<circ> fst) lw) (map (JFloat \<circ> snd) lw)
             = map (\<lambda>(k, v). (JInt k, JFloat v)) lw"
    by (induction lw) auto
  from False show ?thesis
    by (simp add: sparse_to_dict_def dict_keys_def dict_values_def z)
qed

theorem sparse_to_dict_parallel_witness:
  "sparse_to_dict [(7, 1 / 2), (3, 2)] =
     JObj [(''indices'', JArr [JInt 7, JInt 3]), (''values'', JArr [JFloat (1 / 2), JFloat 2])] \<and>
   sparse_to_dict [] = JObj [(''indices'', JArr []), (''values'', JArr [])]"
  using sparse_to_dict_parallel [of "[(7, 1 / 2), (3, 2)]"] sparse_to_dict_parallel [of "[]"]
  by (simp add: sparse_to_dict_def dict_keys_def dict_values_def)

subsection \<open>Where a 400 response can come from\<close>

lemma embed_400:
  assumes "fst (embed enc ml data w) = Inr r" and "status r = 400"
  shows "\<exists>kvs. data = JObj kvs \<and> \<not> truthy (body_field kvs ''text'' (JStr ''''))"
proof (rule ccontr)
  assume n: "\<not> ?thesis"
  show False
  proof (cases "\<exists>kvs. data = JObj kvs")
    case False
    with assms show False by (simp add: not_object)
  next
    case True
    then obtain kvs where d: "data = JObj kvs" by blast
    with n have t: "truthy (body_field kvs ''text'' (JStr ''''))" by blast
    from assms show False unfolding d embed_validated [OF t]
      by (auto split: prod.splits sum.splits)
  qed
qed

lemma embed_batch_400:
  assumes "fst (embed_batch enc ml data w) = Inr r" and "status r = 400"
  shows "\<exists>kvs. data = JObj kvs \<and> \<not> truthy (body_field kvs ''texts'' (JArr []))"
proof (rule ccontr)
  assume n: "\<not> ?thesis"
  show False
  proof (cases "\<exists>kvs. data = JObj kvs")
    case False
    with assms show False by (simp add: not_object)
  next
    case True
    then obtain kvs where d: "data = JObj kvs" by blast
    with n have t: "truthy (body_field kvs ''texts'' (JArr []))" by blast
    from assms show False unfolding d embed_batch_validated [OF t]
      by (auto split: prod.splits sum.splits)
  qed
qed

lemma embed_full_400:
  assumes "fst (embed_full enc ml data w) = Inr r" and "status r = 400"
  shows "\<exists>kvs. data = JObj kvs \<and> \<not> truthy (body_field kvs ''text'' (JStr ''''))"
proof (rule ccontr)
  assume n: "\<not> ?thesis"
  show False
  proof (cases "\<exists>kvs. data = JObj kvs")
    case False
    with assms show False by (simp add: not_object)
  next
    case True
    then obtain kvs where d: "data = JObj kvs" by blast
    with n have t: "truthy (body_field kvs ''text'' (JStr ''''))" by blast
    from assms show False unfolding d embed_full_validated [OF t]
      by (auto split: prod.splits sum.splits)
  qed
qed

lemma embed_batch_full_400:
  assumes "fst (embed_batch_full enc ml data w) = Inr r" and "status r = 400"
  shows "\<exists>kvs. data = JObj kvs \<and> \<not> truthy (body_field kvs ''texts'' (JArr []))"
proof (rule ccontr)
  assume n: "\<not> ?thesis"
  show False
  proof (cases "\<exists>kvs. data = JObj kvs")
    case False
    with assms show False by (simp add: not_object)
  next
    case True
    then obtain kvs where d: "data = JObj kvs" by blast
    with n have t: "truthy (body_field kvs ''texts'' (JArr []))" by blast
    from assms show False unfolding d embed_batch_full_validated [OF t]
      by (auto split: prod.splits sum.splits)
  qed
qed

subsection \<open>Validation\<close>

text \<open>
  Claim C2, as the claim states it, at the request whose parsed body is
  \<^verbatim>\<open>None\<close>: the field \<open>text\<close> is missing from it, and the handler ends with
  the exception of the attribute lookup, not with the 400 response.
\<close>

theorem null_body_not_400_counterexample:
  "fst (embed stub_encoder 8192 JNull fresh_world) = Inl AttributeError \<and>
   fst (embed stub_encoder 8192 JNull fresh_world) \<noteq>
     Inr (Response 400 (JObj [(''error'', JStr ''text is required'')]))"
  by (simp add: embed_def)

text \<open>
  Claim C2, amended. For every request whose parsed body is a JSON object in
  which \<open>text\<close> is missing or the empty string, the two single handlers answer
  400 with the body \<open>{"error": "text is required"}\<close>; for every such body in
  which \<open>texts\<close> is missing or the empty sequence, the two batch handlers answer
  400 with the body \<open>{"error": "texts is required"}\<close>.
\<close>

theorem validation_error_response:
  "(map_of kvs ''text'' = None \<or> map_of kvs ''text'' = Some (JStr '''') \<longrightarrow>
      fst (embed enc ml (JObj kvs) w) =
        Inr (Response 400 (JObj [(''error'', JStr ''text is required'')])) \<and>
      fst (embed_full enc ml (JObj kvs) w) =
        Inr (Response 400 (JObj [(''error'', JStr ''text is required'')]))) \<and>
   (map_of kvs ''texts'' = None \<or> map_of kvs ''texts'' = Some (JArr []) \<longrightarrow>
      fst (embed_batch enc ml (JObj kvs) w) =
        Inr (Response 400 (JObj [(''error'', JStr ''texts is required'')])) \<and>
      fst (embed_batch_full enc ml (JObj kvs) w) =
        Inr (Response 400 (JObj [(''error'', JStr ''texts is required'')])))"
proof (intro conjI impI)
  assume "map_of kvs ''text'' = None \<or> map_of kvs ''text'' = Some (JStr '''')"
  then have f: "\<not> truthy (body_field kvs ''text'' (JStr ''''))" by auto
  show "fst (embed enc ml (JObj kvs) w) =
        Inr (Response 400 (JObj [(''error'', JStr ''text is required'')]))"
    by (simp add: rejected_text(1) [OF f] validation_error_def)
  show "fst (embed_full enc ml (JObj kvs) w) =
        Inr (Response 400 (JObj [(''error'', JStr ''text is required'')]))"
    by (simp add: rejected_text(2) [OF f] validation_error_def)
next
  assume "map_of kvs ''texts'' = None \<or> map_of kvs ''texts'' = Some (JArr [])"
  then have f: "\<not> truthy (body_field kvs ''texts'' (JArr []))" by auto
  show "fst (embed_batch enc ml (JObj kvs) w) =
        Inr (Response 400 (JObj [(''error'', JStr ''texts is required'')]))"
    by (simp add: rejected_texts(1) [OF f] validation_error_def)
  show "fst (embed_batch_full enc ml (JObj kvs) w) =
        Inr (Response 400 (JObj [(''error'', JStr ''texts is required'')]))"
    by (simp add: rejected_texts(2) [OF f] validation_error_def)
qed

theorem validation_error_response_witness:
  "map_of [(''text'', JStr '''')] ''text'' = Some (JStr '''') \<and>
   map_of [(''text'', JStr '''')] ''texts'' = None \<and>
   fst (embed stub_encoder 8192 (JObj [(''text'', JStr '''')]) fresh_world) =
     Inr (Response 400 (JObj [(''error'', JStr ''text is required'')])) \<and>
   fst (embed_batch_full stub_encoder 8192 (JObj [(''text'', JStr '''')]) fresh_world) =
     Inr (Response 400 (JObj [(''error'', JStr ''texts is required'')]))"
  using validation_error_response [of "[(''text'', JStr '''')]" stub_encoder 8192 fresh_world]
  by simp

text \<open>
  Claim C3. A request rejected by validation never reaches the model: when the
  required field of an object body is missing or falsy, the handler returns the
  400 response and the world it was given, with the model's state untouched and
  no call recorded; and whenever a handler answers 400, on any body, the
  world is the one it was given.
\<close>

theorem rejected_before_encode:
  "(\<not> truthy (body_field kvs ''text'' (JStr '''')) \<longrightarrow>
      embed enc ml (JObj kvs) w = (Inr (validation_error ''text is required''), w) \<and>
      embed_full enc ml (JObj kvs) w = (Inr (validation_error ''text is required''), w)) \<and>
   (\<not> truthy (body_field kvs ''texts'' (JArr [])) \<longrightarrow>
      embed_batch enc ml (JObj kvs) w = (Inr (validation_error ''texts is required''), w) \<and>
      embed_batch_full enc ml (JObj kvs) w = (Inr (validation_error ''texts is required''), w)) \<and>
   (\<forall>r. status r = 400 \<longrightarrow>
      (fst (embed enc ml data w) = Inr r \<longrightarrow> snd (embed enc ml data w) = w) \<and>
      (fst (embed_batch enc ml data w) = Inr r \<longrightarrow> snd (embed_batch enc ml data w) = w) \<and>
      (fst (embed_full enc ml data w) = Inr r \<longrightarrow> snd (embed_full enc ml data w) = w) \<and>
      (fst (embed_batch_full enc ml data w) = Inr r \<longrightarrow>
         snd (embed_batch_full enc ml data w) = w))"
proof (intro conjI impI allI)
  fix r assume s: "status r = 400"
  { assume "fst (embed enc ml data w) = Inr r"
    from embed_400 [OF this s] show "snd (embed enc ml data w) = w"
      by (auto simp: rejected_text) }
  { assume "fst (embed_batch enc ml data w) = Inr r"
    from embed_batch_400 [OF this s] show "snd (embed_batch enc ml data w) = w"
      by (auto simp: rejected_texts) }
  { assume "fst (embed_full enc ml data w) = Inr r"
    from embed_full_400 [OF this s] show "snd (embed_full enc ml data w) = w"
      by (auto simp: rejected_text) }
  { assume "fst (embed_batch_full enc ml data w) = Inr r"
    from embed_batch_full_400 [OF this s] show "snd (embed_batch_full enc ml data w) = w"
      by (auto simp: rejected_texts) }
qed (simp_all add: rejected_text rejected_texts)

theorem rejected_before_encode_witness:
  "\<not> truthy (body_field [(''texts'', JArr [])] ''text'' (JStr '''')) \<and>
   \<not> truthy (body_field [(''texts'', JArr [])] ''texts'' (JArr [])) \<and>
   embed stub_encoder 8192 (JObj [(''texts'', JArr [])]) fresh_world =
     (Inr (Response 400 (JObj [(''error'', JStr ''text is required'')])), fresh_world) \<and>
   embed_batch stub_encoder 8192 (JObj [(''texts'', JArr [])]) fresh_world =
     (Inr (Response 400 (JObj [(''error'', JStr ''texts is required'')])), fresh_world) \<and>
   calls fresh_world = []"
  using rejected_before_encode
          [of "[(''texts'', JArr [])]" stub_encoder 8192 fresh_world "JObj [(''texts'', JArr [])]"]
  by (simp add: validation_error_def fresh_world_def)

text \<open>
  Claim C9. When the parsed body is \<^verbatim>\<open>None\<close>, or any other value that is not a
  JSON object, each of the four handlers ends with the exception raised by
  reading the field, and makes no call; a 400 response is only ever produced
  for a body that is a JSON object.
\<close>

theorem non_object_body_raises:
  "((\<forall>kvs. data \<noteq> JObj kvs) \<longrightarrow>
      embed enc ml data w = (Inl AttributeError, w) \<and>
      embed_batch enc ml data w = (Inl AttributeError, w) \<and>
      embed_full enc ml data w = (Inl AttributeError, w) \<and>
      embed_batch_full enc ml data w = (Inl AttributeError, w)) \<and>
   embed enc ml JNull w = (Inl AttributeError, w) \<and>
   embed_batch enc ml JNull w = (Inl AttributeError, w) \<and>
   embed_full enc ml JNull w = (Inl AttributeError, w) \<and>
   embed_batch_full enc ml JNull w = (Inl AttributeError, w) \<and>
   (\<forall>r. status r = 400 \<and>
        (fst (embed enc ml data w) = Inr r \<or> fst (embed_batch enc ml data w) = Inr r \<or>
         fst (embed_full enc ml data w) = Inr r \<or> fst (embed_batch_full enc ml data w) = Inr r)
      \<longrightarrow> (\<exists>kvs. data = JObj kvs))"
proof (intro conjI impI allI)
  fix r
  assume "status r = 400 \<and>
        (fst (embed enc ml data w) = Inr r \<or> fst (embed_batch enc ml data w) = Inr r \<or>
         fst (embed_full enc ml data w) = Inr r \<or> fst (embed_batch_full enc ml data w) = Inr r)"
  then show "\<exists>kvs. data = JObj kvs"
    using embed_400 [of enc ml data w r] embed_batch_400 [of enc ml data w r]
      embed_full_400 [of enc ml data w r] embed_batch_full_400 [of enc ml data w r]
    by blast
qed (simp_all add: not_object)

theorem non_object_body_raises_witness:
  "(\<forall>kvs. JArr [JStr ''a''] \<noteq> JObj kvs) \<and>
   embed stub_encoder 8192 (JArr [JStr ''a'']) fresh_world = (Inl AttributeError, fresh_world) \<and>
   embed_batch_full stub_encoder 8192 JNull fresh_world = (Inl AttributeError, fresh_world)"
  using non_object_body_raises [of "JArr [JStr ''a'']" stub_encoder 8192 fresh_world]
    non_object_body_raises [of JNull stub_encoder 8192 fresh_world]
  by simp

subsection \<open>The call of the model\<close>

text \<open>
  Claim C5. A validated request makes exactly one call of the model: the world a
  handler leaves has the calls it was given followed by one more, and the
  model's state is the one that call leaves. The call carries the whole input
  (the single text wrapped in a one-element list, or the batch as submitted),
  the process-wide \<^verbatim>\<open>MAX_LENGTH\<close>, \<open>return_dense = True\<close>, \<open>return_sparse\<close> true
  exactly in the two full handlers, and \<open>return_colbert_vecs = False\<close>.
\<close>

theorem one_encode_call:
  "(truthy (body_field kvs ''text'' (JStr '''')) \<longrightarrow>
      snd (embed enc ml (JObj kvs) w) =
        \<lparr>model_state =
           snd (enc \<lparr>sentences = JArr [body_field kvs ''text'' (JStr '''')], max_length = ml,
                     return_dense = True, return_sparse = False,
                     return_colbert_vecs = False\<rparr> (model_state w)),
         calls = calls w @
           [\<lparr>sentences = JArr [body_field kvs ''text'' (JStr '''')], max_length = ml,
             return_dense = True, return_sparse = False, return_colbert_vecs = False\<rparr>]\<rparr> \<and>
      snd (embed_full enc ml (JObj kvs) w) =
        \<lparr>model_state =
           snd (enc \<lparr>sentences = JArr [body_field kvs ''text'' (JStr '''')], max_length = ml,
                     return_dense = True, return_sparse = True,
                     return_colbert_vecs = False\<rparr> (model_state w)),
         calls = calls w @
           [\<lparr>sentences = JArr [body_field kvs ''text'' (JStr '''')], max_length = ml,
             return_dense = True, return_sparse = True, return_colbert_vecs = False\<rparr>]\<rparr>) \<and>
   (truthy (body_field kvs ''texts'' (JArr [])) \<longrightarrow>
      snd (embed_batch enc ml (JObj kvs) w) =
        \<lparr>model_state =
           snd (enc \<lparr>sentences = body_field kvs ''texts'' (JArr []), max_length = ml,
                     return_dense = True, return_sparse = False,
                     return_colbert_vecs = False\<rparr> (model_state w)),
         calls = calls w @
           [\<lparr>sentences = body_field kvs ''texts'' (JArr []), max_length = ml,
             return_dense = True, return_sparse = False, return_colbert_vecs = False\<rparr>]\<rparr> \<and>
      snd (embed_batch_full enc ml (JObj kvs) w) =
        \<lparr>model_state =
           snd (enc \<lparr>sentences = body_field kvs ''texts'' (JArr []), max_length = ml,
                     return_dense = True, return_sparse = True,
                     return_colbert_vecs = False\<rparr> (model_state w)),
         calls = calls w @
           [\<lparr>sentences = body_field kvs ''texts'' (JArr []), max_length = ml,
             return_dense = True, return_sparse = True, return_colbert_vecs = False\<rparr>]\<rparr>)"
proof (intro conjI impI)
  assume t: "truthy (body_field kvs ''text'' (JStr ''''))"
  show "snd (embed enc ml (JObj kvs) w) =
        \<lparr>model_state = snd (enc (dense_call (JArr [body_field kvs ''text'' (JStr '''')]) ml)
                                (model_state w)),
         calls = calls w @ [dense_call (JArr [body_field kvs ''text'' (JStr '''')]) ml]\<rparr>"
    unfolding embed_validated [OF t] by (simp split: prod.split)
  show "snd (embed_full enc ml (JObj kvs) w) =
        \<lparr>model_state = snd (enc (full_call (JArr [body_field kvs ''text'' (JStr '''')]) ml)
                                (model_state w)),
         calls = calls w @ [full_call (JArr [body_field kvs ''text'' (JStr '''')]) ml]\<rparr>"
    unfolding embed_full_validated [OF t] by (simp split: prod.split)
next
  assume t: "truthy (body_field kvs ''texts'' (JArr []))"
  show "snd (embed_batch enc ml (JObj kvs) w) =
        \<lparr>model_state = snd (enc (dense_call (body_field kvs ''texts'' (JArr [])) ml)
                                (model_state w)),
         calls = calls w @ [dense_call (body_field kvs ''texts'' (JArr [])) ml]\<rparr>"
    unfolding embed_batch_validated [OF t] by (simp split: prod.split)
  show "snd (embed_batch_full enc ml (JObj kvs) w) =
        \<lparr>model_state = snd (enc (full_call (body_field kvs ''texts'' (JArr [])) ml)
                                (model_state w)),
         calls = calls w @ [full_call (body_field kvs ''texts'' (JArr [])) ml]\<rparr>"
    unfolding embed_batch_full_validated [OF t] by (simp split: prod.split)
qed

theorem one_encode_call_witness:
  "truthy (body_field [(''text'', JStr ''hi''), (''texts'', JArr [JStr ''a'', JStr ''bc''])]
             ''text'' (JStr '''')) \<and>
   truthy (body_field [(''text'', JStr ''hi''), (''texts'', JArr [JStr ''a'', JStr ''bc''])]
             ''texts'' (JArr [])) \<and>
   calls (snd (embed_full stub_encoder 8192
            (JObj [(''text'', JStr ''hi''), (''texts'', JArr [JStr ''a'', JStr ''bc''])])
            fresh_world)) =
     [\<lparr>sentences = JArr [JStr ''hi''], max_length = 8192, return_dense = True,
       return_sparse = True, return_colbert_vecs = False\<rparr>] \<and>
   calls (snd (embed_batch stub_encoder 8192
            (JObj [(''text'', JStr ''hi''), (''texts'', JArr [JStr ''a'', JStr ''bc''])])
            fresh_world)) =
     [\<lparr>sentences = JArr [JStr ''a'', JStr ''bc''], max_length = 8192, return_dense = True,
       return_sparse = False, return_colbert_vecs = False\<rparr>]"
  using one_encode_call
          [of "[(''text'', JStr ''hi''), (''texts'', JArr [JStr ''a'', JStr ''bc''])]"
              stub_encoder 8192 fresh_world]
  by (simp add: fresh_world_def)

text \<open>
  Claim C10. Validation tests the truth value of the field and nothing else.
  The falsy values are \<^verbatim>\<open>None\<close>, 0, 0.0, \<^verbatim>\<open>False\<close>, the empty string, the empty list
  and the empty dict, and each of them as \<open>text\<close> (or \<open>texts\<close>) of an object
  body gives the 400 response and leaves the world as it was. Every other
  value, of any type, passes: the handler applies the model to the call that
  carries the value unchanged (inside the one-element list for \<open>text\<close>, as it
  is for \<open>texts\<close>), its outcome is what the model returned or raised on that
  call, shaped, the model's state is the one that call leaves, the call is
  recorded, and no response is a 400.
\<close>

theorem validation_is_truthiness:
  "(\<not> truthy v \<longleftrightarrow>
      v \<in> {JNull, JInt 0, JFloat 0, JBool False, JStr '''', JArr [], JObj []}) \<and>
   (map_of kvs ''text'' = Some v \<longrightarrow>
      (\<not> truthy v \<longrightarrow>
         embed enc ml (JObj kvs) w = (Inr (validation_error ''text is required''), w) \<and>
         embed_full enc ml (JObj kvs) w = (Inr (validation_error ''text is required''), w)) \<and>
      (truthy v \<longrightarrow>
         embed enc ml (JObj kvs) w =
           ((case fst (enc (dense_call (JArr [v]) ml) (model_state w)) of
               Inl e \<Rightarrow> Inl e
             | Inr result \<Rightarrow>
                 (case index0 (dense_vecs result) of
                    Inl e \<Rightarrow> Inl e
                  | Inr x \<Rightarrow> Inr (Response 200 (JObj [(''embedding'', tolist x)])))),
            \<lparr>model_state = snd (enc (dense_call (JArr [v]) ml) (model_state w)),
             calls = calls w @ [dense_call (JArr [v]) ml]\<rparr>) \<and>
         embed_full enc ml (JObj kvs) w =
           ((case fst (enc (full_call (JArr [v]) ml) (model_state w)) of
               Inl e \<Rightarrow> Inl e
             | Inr result \<Rightarrow>
                 (case index0 (dense_vecs result) of
                    Inl e \<Rightarrow> Inl e
                  | Inr x \<Rightarrow>
                      (case index0 (lexical_weights result) of
                         Inl e \<Rightarrow> Inl e
                       | Inr lw \<Rightarrow>
                           Inr (Response 200
                             (JObj [(''dense'', tolist x), (''sparse'', sparse_to_dict lw)]))))),
            \<lparr>model_state = snd (enc (full_call (JArr [v]) ml) (model_state w)),
             calls = calls w @ [full_call (JArr [v]) ml]\<rparr>) \<and>
         (\<forall>r. fst (embed enc ml (JObj kvs) w) = Inr r \<or>
               fst (embed_full enc ml (JObj kvs) w) = Inr r \<longrightarrow> status r = 200))) \<and>
   (map_of kvs ''texts'' = Some v \<longrightarrow>
      (\<not> truthy v \<longrightarrow>
         embed_batch enc ml (JObj kvs) w = (Inr (validation_error ''texts is required''), w) \<and>
         embed_batch_full enc ml (JObj kvs) w =
           (Inr (validation_error ''texts is required''), w)) \<and>
      (truthy v \<longrightarrow>
         embed_batch enc ml (JObj kvs) w =
           ((case fst (enc (dense_call v ml) (model_state w)) of
               Inl e \<Rightarrow> Inl e
             | Inr result \<Rightarrow>
                 Inr (Response 200
                   (JObj [(''embeddings'', JArr (map tolist (dense_vecs result)))]))),
            \<lparr>model_state = snd (enc (dense_call v ml) (model_state w)),
             calls = calls w @ [dense_call v ml]\<rparr>) \<and>
         embed_batch_full enc ml (JObj kvs) w =
           ((case fst (enc (full_call v ml) (model_state w)) of
               Inl e \<Rightarrow> Inl e
             | Inr result \<Rightarrow>
                 Inr (Response 200
                   (JObj [(''dense'', JArr (map tolist (dense_vecs result))),
                          (''sparse'', JArr (map sparse_to_dict (lexical_weights result)))]))),
            \<lparr>model_state = snd (enc (full_call v ml) (model_state w)),
             calls = calls w @ [full_call v ml]\<rparr>) \<and>
         (\<forall>r. fst (embed_batch enc ml (JObj kvs) w) = Inr r \<or>
               fst (embed_batch_full enc ml (JObj kvs) w) = Inr r \<longrightarrow> status r = 200)))"
proof (intro conjI impI allI)
  show "(\<not> truthy v) = (v \<in> {JNull, JInt 0, JFloat 0, JBool False, JStr '''', JArr [], JObj []})"
    by (cases v) auto
next
  fix r
  assume m: "map_of kvs ''text'' = Some v" and t: "truthy v"
    and r: "fst (embed enc ml (JObj kvs) w) = Inr r \<or> fst (embed_full enc ml (JObj kvs) w) = Inr r"
  from m t have t': "truthy (body_field kvs ''text'' (JStr ''''))" by simp
  from r show "status r = 200"
    unfolding embed_validated [OF t'] embed_full_validated [OF t']
    by (auto split: prod.splits sum.splits)
next
  fix r
  assume m: "map_of kvs ''texts'' = Some v" and t: "truthy v"
    and r: "fst (embed_batch enc ml (JObj kvs) w) = Inr r \<or>
            fst (embed_batch_full enc ml (JObj kvs) w) = Inr r"
  from m t have t': "truthy (body_field kvs ''texts'' (JArr []))" by simp
  from r show "status r = 200"
    unfolding embed_batch_validated [OF t'] embed_batch_full_validated [OF t']
    by (auto split: prod.splits sum.splits)
next
  assume m: "map_of kvs ''text'' = Some v" and t: "truthy v"
  from m t have t': "truthy (body_field kvs ''text'' (JStr ''''))" by simp
  show "embed enc ml (JObj kvs) w =
           ((case fst (enc (dense_call (JArr [v]) ml) (model_state w)) of
               Inl e \<Rightarrow> Inl e
             | Inr result \<Rightarrow>
                 (case index0 (dense_vecs result) of
                    Inl e \<Rightarrow> Inl e
                  | Inr x \<Rightarrow> Inr (Response 200 (JObj [(''embedding'', tolist x)])))),
            \<lparr>model_state = snd (enc (dense_call (JArr [v]) ml) (model_state w)),
             calls = calls w @ [dense_call (JArr [v]) ml]\<rparr>)"
    unfolding embed_validated [OF t'] using m by simp
  show "embed_full enc ml (JObj kvs) w =
           ((case fst (enc (full_call (JArr [v]) ml) (model_state w)) of
               Inl e \<Rightarrow> Inl e
             | Inr result \<Rightarrow>
                 (case index0 (dense_vecs result) of
                    Inl e \<Rightarrow> Inl e
                  | Inr x \<Rightarrow>
                      (case index0 (lexical_weights result) of
                         Inl e \<Rightarrow> Inl e
                       | Inr lw \<Rightarrow>
                           Inr (Response 200
                             (JObj [(''dense'', tolist x), (''sparse'', sparse_to_dict lw)]))))),
            \<lparr>model_state = snd (enc (full_call (JArr [v]) ml) (model_state w)),
             calls = calls w @ [full_call (JArr [v]) ml]\<rparr>)"
    unfolding embed_full_validated [OF t'] using m by simp
next
  assume m: "map_of kvs ''texts'' = Some v" and t: "truthy v"
  from m t have t': "truthy (body_field kvs ''texts'' (JArr []))" by simp
  show "embed_batch enc ml (JObj kvs) w =
           ((case fst (enc (dense_call v ml) (model_state w)) of
               Inl e \<Rightarrow> Inl e
             | Inr result \<Rightarrow>
                 Inr (Response 200
                   (JObj [(''embeddings'', JArr (map tolist (dense_vecs result)))]))),
            \<lparr>model_state = snd (enc (dense_call v ml) (model_state w)),
             calls = calls w @ [dense_call v ml]\<rparr>)"
    unfolding embed_batch_validated [OF t'] using m by simp
  show "embed_batch_full enc ml (JObj kvs) w =
           ((case fst (enc (full_call v ml) (model_state w)) of
               Inl e \<Rightarrow> Inl e
             | Inr result \<Rightarrow>
                 Inr (Response 200
                   (JObj [(''dense'', JArr (map tolist (dense_vecs result))),
                          (''sparse'', JArr (map sparse_to_dict (lexical_weights result)))]))),
            \<lparr>model_state = snd (enc (full_call v ml) (model_state w)),
             calls = calls w @ [full_call v ml]\<rparr>)"
    unfolding embed_batch_full_validated [OF t'] using m by simp
qed (simp_all add: rejected_text rejected_texts)

theorem validation_is_truthiness_witness:
  "map_of [(''text'', JInt 0), (''texts'', JStr ''abc'')] ''text'' = Some (JInt 0) \<and>
   map_of [(''text'', JInt 0), (''texts'', JStr ''abc'')] ''texts'' = Some (JStr ''abc'') \<and>
   \<not> truthy (JInt 0) \<and> truthy (JStr ''abc'') \<and>
   embed stub_encoder 8192 (JObj [(''text'', JInt 0), (''texts'', JStr ''abc'')]) fresh_world =
     (Inr (Response 400 (JObj [(''error'', JStr ''text is required'')])), fresh_world) \<and>
   embed_batch stub_encoder 8192 (JObj [(''text'', JInt 0), (''texts'', JStr ''abc'')])
       fresh_world =
     (Inl (InferenceFailure ''sentences must be a list''),
      \<lparr>model_state = 1,
       calls = [\<lparr>sentences = JStr ''abc'', max_length = 8192, return_dense = True,
                 return_sparse = False, return_colbert_vecs = False\<rparr>]\<rparr>)"
  using validation_is_truthiness
          [of "JInt 0" "[(''text'', JInt 0), (''texts'', JStr ''abc'')]" stub_encoder 8192
              fresh_world]
    validation_is_truthiness
          [of "JStr ''abc''" "[(''text'', JInt 0), (''texts'', JStr ''abc'')]" stub_encoder 8192
              fresh_world]
  by (simp add: validation_error_def fresh_world_def stub_encoder_def)

subsection \<open>Failures of the model\<close>

text \<open>
  Claim C7. When the model raises on the call a handler makes, the handler ends
  with that same exception: nothing catches it. And a handler never answers
  with part of what was asked: a response is either the 400 of the validation
  or the 200 that holds every representation requested, built from the result
  the model returned (the dense vector, and in the full handlers the sparse
  object as well; in the batch handlers one per vector and per mapping
  returned).
\<close>

theorem inference_failure_propagates:
  "(truthy (body_field kvs ''text'' (JStr '''')) \<longrightarrow>
      (\<forall>e. fst (enc (dense_call (JArr [body_field kvs ''text'' (JStr '''')]) ml)
                   (model_state w)) = Inl e \<longrightarrow>
           fst (embed enc ml (JObj kvs) w) = Inl e) \<and>
      (\<forall>e. fst (enc (full_call (JArr [body_field kvs ''text'' (JStr '''')]) ml)
                   (model_state w)) = Inl e \<longrightarrow>
           fst (embed_full enc ml (JObj kvs) w) = Inl e)) \<and>
   (truthy (body_field kvs ''texts'' (JArr [])) \<longrightarrow>
      (\<forall>e. fst (enc (dense_call (body_field kvs ''texts'' (JArr [])) ml)
                   (model_state w)) = Inl e \<longrightarrow>
           fst (embed_batch enc ml (JObj kvs) w) = Inl e) \<and>
      (\<forall>e. fst (enc (full_call (body_field kvs ''texts'' (JArr [])) ml)
                   (model_state w)) = Inl e \<longrightarrow>
           fst (embed_batch_full enc ml (JObj kvs) w) = Inl e)) \<and>
   (\<forall>r. fst (embed enc ml (JObj kvs) w) = Inr r \<longrightarrow>
      r = validation_error ''text is required'' \<or>
      (\<exists>res v. fst (enc (dense_call (JArr [body_field kvs ''text'' (JStr '''')]) ml)
                       (model_state w)) = Inr res \<and>
         index0 (dense_vecs res) = Inr v \<and>
         r = Response 200 (JObj [(''embedding'', tolist v)]))) \<and>
   (\<forall>r. fst (embed_batch enc ml (JObj kvs) w) = Inr r \<longrightarrow>
      r = validation_error ''texts is required'' \<or>
      (\<exists>res. fst (enc (dense_call (body_field kvs ''texts'' (JArr [])) ml)
                     (model_state w)) = Inr res \<and>
         r = Response 200 (JObj [(''embeddings'', JArr (map tolist (dense_vecs res)))]))) \<and>
   (\<forall>r. fst (embed_full enc ml (JObj kvs) w) = Inr r \<longrightarrow>
      r = validation_error ''text is required'' \<or>
      (\<exists>res v lw. fst (enc (full_call (JArr [body_field kvs ''text'' (JStr '''')]) ml)
                          (model_state w)) = Inr res \<and>
         index0 (dense_vecs res) = Inr v \<and> index0 (lexical_weights res) = Inr lw \<and>
         r = Response 200 (JObj [(''dense'', tolist v), (''sparse'', sparse_to_dict lw)]))) \<and>
   (\<forall>r. fst (embed_batch_full enc ml (JObj kvs) w) = Inr r \<longrightarrow>
      r = validation_error ''texts is required'' \<or>
      (\<exists>res. fst (enc (full_call (body_field kvs ''texts'' (JArr [])) ml)
                     (model_state w)) = Inr res \<and>
         r = Response 200
               (JObj [(''dense'', JArr (map tolist (dense_vecs res))),
                      (''sparse'', JArr (map sparse_to_dict (lexical_weights res)))])))"
proof (intro conjI impI allI)
  fix r assume r: "fst (embed enc ml (JObj kvs) w) = Inr r"
  show "r = validation_error ''text is required'' \<or>
      (\<exists>res v. fst (enc (dense_call (JArr [body_field kvs ''text'' (JStr '''')]) ml)
                       (model_state w)) = Inr res \<and>
         index0 (dense_vecs res) = Inr v \<and>
         r = Response 200 (JObj [(''embedding'', tolist v)]))"
  proof (cases "truthy (body_field kvs ''text'' (JStr ''''))")
    case True
    from r show ?thesis unfolding embed_validated [OF True]
      by (auto split: prod.splits sum.splits)
  next
    case False
    with r show ?thesis by (simp add: rejected_text)
  qed
next
  fix r assume r: "fst (embed_batch enc ml (JObj kvs) w) = Inr r"
  show "r = validation_error ''texts is required'' \<or>
      (\<exists>res. fst (enc (dense_call (body_field kvs ''texts'' (JArr [])) ml)
                     (model_state w)) = Inr res \<and>
         r = Response 200 (JObj [(''embeddings'', JArr (map tolist (dense_vecs res)))]))"
  proof (cases "truthy (body_field kvs ''texts'' (JArr []))")
    case True
    from r show ?thesis unfolding embed_batch_validated [OF True]
      by (auto split: prod.splits sum.splits)
  next
    case False
    with r show ?thesis by (simp add: rejected_texts)
  qed
next
  fix r assume r: "fst (embed_full enc ml (JObj kvs) w) = Inr r"
  show "r = validation_error ''text is required'' \<or>
      (\<exists>res v lw. fst (enc (full_call (JArr [body_field kvs ''text'' (JStr '''')]) ml)
                          (model_state w)) = Inr res \<and>
         index0 (dense_vecs res) = Inr v \<and> index0 (lexical_weights res) = Inr lw \<and>
         r = Response 200 (JObj [(''dense'', tolist v), (''sparse'', sparse_to_dict lw)]))"
  proof (cases "truthy (body_field kvs ''text'' (JStr ''''))")
    case True
    from r show ?thesis unfolding embed_full_validated [OF True]
      by (auto split: prod.splits sum.splits)
  next
    case False
    with r show ?thesis by (simp add: rejected_text)
  qed
next
  fix r assume r: "fst (embed_batch_full enc ml (JObj kvs) w) = Inr r"
  show "r = validation_error ''texts is required'' \<or>
      (\<exists>res. fst (enc (full_call (body_field kvs ''texts'' (JArr [])) ml)
                     (model_state w)) = Inr res \<and>
         r = Response 200
               (JObj [(''dense'', JArr (map tolist (dense_vecs res))),
                      (''sparse'', JArr (map sparse_to_dict (lexical_weights res)))]))"
  proof (cases "truthy (body_field kvs ''texts'' (JArr []))")
    case True
    from r show ?thesis unfolding embed_batch_full_validated [OF True]
      by (auto split: prod.splits sum.splits)
  next
    case False
    with r show ?thesis by (simp add: rejected_texts)
  qed
next
  fix e
  assume t: "truthy (body_field kvs ''text'' (JStr ''''))"
  { assume "fst (enc (dense_call (JArr [body_field kvs ''text'' (JStr '''')]) ml)
                   (model_state w)) = Inl e"
    then show "fst (embed enc ml (JObj kvs) w) = Inl e"
      unfolding embed_validated [OF t] by (simp split: prod.splits) }
  { assume "fst (enc (full_call (JArr [body_field kvs ''text'' (JStr '''')]) ml)
                   (model_state w)) = Inl e"
    then show "fst (embed_full enc ml (JObj kvs) w) = Inl e"
      unfolding embed_full_validated [OF t] by (simp split: prod.splits) }
next
  fix e
  assume t: "truthy (body_field kvs ''texts'' (JArr []))"
  { assume "fst (enc (dense_call (body_field kvs ''texts'' (JArr [])) ml)
                   (model_state w)) = Inl e"
    then show "fst (embed_batch enc ml (JObj kvs) w) = Inl e"
      unfolding embed_batch_validated [OF t] by (simp split: prod.splits) }
  { assume "fst (enc (full_call (body_field kvs ''texts'' (JArr [])) ml)
                   (model_state w)) = Inl e"
    then show "fst (embed_batch_full enc ml (JObj kvs) w) = Inl e"
      unfolding embed_batch_full_validated [OF t] by (simp split: prod.splits) }
qed

theorem inference_failure_propagates_witness:
  "truthy (body_field [(''text'', JStr ''abc''), (''texts'', JStr ''abc'')] ''texts'' (JArr [])) \<and>
   fst (stub_encoder (full_call (JStr ''abc'') 8192) (model_state fresh_world)) =
     Inl (InferenceFailure ''sentences must be a list'') \<and>
   fst (embed_batch_full stub_encoder 8192
          (JObj [(''text'', JStr ''abc''), (''texts'', JStr ''abc'')]) fresh_world) =
     Inl (InferenceFailure ''sentences must be a list'') \<and>
   fst (embed_full stub_encoder 8192
          (JObj [(''text'', JStr ''abc''), (''texts'', JStr ''abc'')]) fresh_world) =
     Inr (Response 200
           (JObj [(''dense'', JArr [JFloat 3, JFloat 1]),
                  (''sparse'', JObj [(''indices'', JArr [JInt 3, JInt 0]),
                                     (''values'', JArr [JFloat (1 / 2), JFloat 1])])]))"
proof -
  have t: "truthy (body_field [(''text'', JStr ''abc''), (''texts'', JStr ''abc'')]
                     ''text'' (JStr ''''))"
    by simp
  have v: "fst (embed_full stub_encoder 8192
          (JObj [(''text'', JStr ''abc''), (''texts'', JStr ''abc'')]) fresh_world) =
     Inr (Response 200
           (JObj [(''dense'', JArr [JFloat 3, JFloat 1]),
                  (''sparse'', JObj [(''indices'', JArr [JInt 3, JInt 0]),
                                     (''values'', JArr [JFloat (1 / 2), JFloat 1])])]))"
    unfolding embed_full_validated [OF t]
    by (simp add: stub_encoder_def fresh_world_def tolist_def sparse_to_dict_def
          dict_keys_def dict_values_def)
  show ?thesis
    using v inference_failure_propagates
            [of "[(''text'', JStr ''abc''), (''texts'', JStr ''abc'')]" stub_encoder 8192
                fresh_world]
    by (simp add: stub_encoder_def)
qed

subsection \<open>Determinism\<close>

lemma stub_encoder_stateless: "fst (stub_encoder c m) = fst (stub_encoder c m')"
  by (simp add: stub_encoder_def split: json.split)

text \<open>
  Claim C8. When what the model returns does not depend on its state (a fixed,
  deterministic function of the call), the response of the single dense
  handler to the body \<open>{"text": s}\<close> is the same in every world, and so the
  same for a second request that follows the first: the handler adds no
  dependence of its own on the process.
\<close>

theorem embed_deterministic:
  assumes "\<forall>c m m'. fst (enc c m) = fst (enc c m')"
  shows "fst (embed enc ml (JObj [(''text'', JStr s)]) w) =
           fst (embed enc ml (JObj [(''text'', JStr s)]) w') \<and>
         fst (embed enc ml (JObj [(''text'', JStr s)])
                (snd (embed enc ml (JObj [(''text'', JStr s)]) w))) =
           fst (embed enc ml (JObj [(''text'', JStr s)]) w)"
proof -
  have ind: "fst (embed enc ml (JObj [(''text'', JStr s)]) u) =
             fst (embed enc ml (JObj [(''text'', JStr s)]) u')" for u u'
  proof (cases "s = []")
    case True
    then show ?thesis by (simp add: rejected_text)
  next
    case False
    then have t: "truthy (body_field [(''text'', JStr s)] ''text'' (JStr ''''))" by simp
    have "fst (enc (dense_call (JArr [JStr s]) ml) (model_state u)) =
          fst (enc (dense_call (JArr [JStr s]) ml) (model_state u'))"
      using assms by blast
    then show ?thesis unfolding embed_validated [OF t]
      by (simp split: prod.splits)
  qed
  show ?thesis using ind [of w w'] ind [of "snd (embed enc ml (JObj [(''text'', JStr s)]) w)" w]
    by simp
qed

theorem embed_deterministic_witness:
  "(\<forall>c m m'. fst (stub_encoder c m) = fst (stub_encoder c m')) \<and>
   fst (embed stub_encoder 8192 (JObj [(''text'', JStr ''abc'')])
          (snd (embed stub_encoder 8192 (JObj [(''text'', JStr ''abc'')]) fresh_world))) =
     fst (embed stub_encoder 8192 (JObj [(''text'', JStr ''abc'')]) fresh_world) \<and>
   fst (embed stub_encoder 8192 (JObj [(''text'', JStr ''abc'')]) fresh_world) =
     Inr (Response 200 (JObj [(''embedding'', JArr [JFloat 3, JFloat 1])])) \<and>
   snd (embed stub_encoder 8192 (JObj [(''text'', JStr ''abc'')]) fresh_world) \<noteq> fresh_world"
proof -
  have h: "\<forall>c m m'. fst (stub_encoder c m) = fst (stub_encoder c m')"
    using stub_encoder_stateless by blast
  have t: "truthy (body_field [(''text'', JStr ''abc'')] ''text'' (JStr ''''))" by simp
  have v: "embed stub_encoder 8192 (JObj [(''text'', JStr ''abc'')]) fresh_world =
        (Inr (Response 200 (JObj [(''embedding'', JArr [JFloat 3, JFloat 1])])),
         \<lparr>model_state = 1, calls = [dense_call (JArr [JStr ''abc'']) 8192]\<rparr>)"
    unfolding embed_validated [OF t]
    by (simp add: stub_encoder_def fresh_world_def tolist_def)
  show ?thesis
    using h embed_deterministic [OF h, of 8192 "''abc''" fresh_world fresh_world] v
    by (simp add: fresh_world_def)
qed

subsection \<open>Batch and single requests\<close>

lemma stub_encoder_per_input:
  "ss \<noteq> [] \<longrightarrow>
     (\<exists>res. fst (stub_encoder (dense_call (JArr (map JStr ss)) ml) m) = Inr res \<and>
            dense_vecs res = map (\<lambda>s. [real (length s), 1]) ss)"
  by (simp add: stub_encoder_def)

text \<open>
  Claim C4, as the claim states it, at the batch \<open>[""]\<close>: a sequence of one
  string, which is not empty as a sequence, with the stand-in model, which
  returns per-input results in input order (\<open>stub_encoder_per_input\<close>). The
  batch handler answers with the vector the model produced for the empty
  string, and the single handler, given that string alone, answers 400 and no
  vector.
\<close>

theorem batch_matches_single_counterexample:
  "fst (embed_batch stub_encoder 8192 (JObj [(''texts'', JArr [JStr ''''])]) fresh_world) =
     Inr (Response 200 (JObj [(''embeddings'', JArr [JArr [JFloat 0, JFloat 1]])])) \<and>
   fst (embed stub_encoder 8192 (JObj [(''text'', JStr '''')]) fresh_world) =
     Inr (Response 400 (JObj [(''error'', JStr ''text is required'')])) \<and>
   fst (embed stub_encoder 8192 (JObj [(''text'', JStr '''')]) fresh_world) \<noteq>
     Inr (Response 200 (JObj [(''embedding'', JArr [JFloat 0, JFloat 1])]))"
  by (simp add: embed_batch_def embed_def model_encode_def stub_encoder_def fresh_world_def
        tolist_def validation_error_def)

text \<open>
  Claim C4, amended. Let the model return, for every non-empty list of strings,
  one dense vector per string in input order, the vector \<open>f s\<close> of a string
  \<open>s\<close> being the same in every batch and every state. Then for every
  non-empty sequence of strings \<open>T\<close> the batch dense handler answers 200 with
  \<open>embeddings\<close> of the length of \<open>T\<close>, \<open>embeddings[i]\<close> is the converted vector
  of \<open>T[i]\<close>, and for every \<open>i\<close> with \<open>T[i]\<close> not the empty string it is the
  \<open>embedding\<close> the single handler answers for \<open>T[i]\<close> alone.
\<close>

theorem batch_matches_single:
  assumes per_input:
    "\<forall>ss m. ss \<noteq> [] \<longrightarrow>
       (\<exists>res. fst (enc (dense_call (JArr (map JStr ss)) ml) m) = Inr res \<and>
              dense_vecs res = map f ss)"
    and nonempty: "T \<noteq> []"
  shows "\<exists>es.
     fst (embed_batch enc ml (JObj [(''texts'', JArr (map JStr T))]) w) =
       Inr (Response 200 (JObj [(''embeddings'', JArr es)])) \<and>
     length es = length T \<and>
     (\<forall>i < length T.
        es ! i = tolist (f (T ! i)) \<and>
        (T ! i \<noteq> [] \<longrightarrow>
           fst (embed enc ml (JObj [(''text'', JStr (T ! i))]) w') =
             Inr (Response 200 (JObj [(''embedding'', es ! i)]))))"
proof -
  from per_input nonempty obtain res where
    res: "fst (enc (dense_call (JArr (map JStr T)) ml) (model_state w)) = Inr res"
    and dv: "dense_vecs res = map f T"
    by blast
  have t: "truthy (body_field [(''texts'', JArr (map JStr T))] ''texts'' (JArr []))"
    using nonempty by simp
  have batch: "fst (embed_batch enc ml (JObj [(''texts'', JArr (map JStr T))]) w) =
       Inr (Response 200 (JObj [(''embeddings'', JArr (map (tolist \<circ> f) T))]))"
    unfolding embed_batch_validated [OF t] using res dv by simp
  have single: "fst (embed enc ml (JObj [(''text'', JStr s)]) w') =
             Inr (Response 200 (JObj [(''embedding'', tolist (f s))]))" if s: "s \<noteq> []" for s
  proof -
    from per_input [rule_format, of "[s]" "model_state w'"] obtain res' where
      res': "fst (enc (dense_call (JArr [JStr s]) ml) (model_state w')) = Inr res'"
      and dv': "dense_vecs res' = [f s]"
      by auto
    have t': "truthy (body_field [(''text'', JStr s)] ''text'' (JStr ''''))"
      using s by simp
    show ?thesis unfolding embed_validated [OF t'] using res' dv' by simp
  qed
  show ?thesis
  proof (intro exI conjI allI impI)
    show "fst (embed_batch enc ml (JObj [(''texts'', JArr (map JStr T))]) w) =
       Inr (Response 200 (JObj [(''embeddings'', JArr (map (tolist \<circ> f) T))]))"
      by (rule batch)
    show "length (map (tolist \<circ> f) T) = length T" by simp
  next
    fix i assume "i < length T"
    then show "map (tolist \<circ> f) T ! i = tolist (f (T ! i))" by simp
  next
    fix i assume i: "i < length T" and "T ! i \<noteq> []"
    from single [OF this(2)] i
    show "fst (embed enc ml (JObj [(''text'', JStr (T ! i))]) w') =
             Inr (Response 200 (JObj [(''embedding'', map (tolist \<circ> f) T ! i)]))"
      by simp
  qed
qed

theorem batch_matches_single_witness:
  "[''ab'', ''''] \<noteq> [] \<and> [''ab'', ''''] ! 0 \<noteq> [] \<and>
   fst (embed_batch stub_encoder 8192 (JObj [(''texts'', JArr [JStr ''ab'', JStr ''''])])
          fresh_world) =
     Inr (Response 200
           (JObj [(''embeddings'', JArr [JArr [JFloat 2, JFloat 1], JArr [JFloat 0, JFloat 1]])])) \<and>
   fst (embed stub_encoder 8192 (JObj [(''text'', JStr ''ab'')]) fresh_world) =
     Inr (Response 200 (JObj [(''embedding'', JArr [JFloat 2, JFloat 1])]))"
proof -
  have h: "\<forall>ss m. ss \<noteq> [] \<longrightarrow>
       (\<exists>res. fst (stub_encoder (dense_call (JArr (map JStr ss)) 8192) m) = Inr res \<and>
              dense_vecs res = map (\<lambda>s. [real (length s), 1]) ss)"
    using stub_encoder_per_input by blast
  have n: "[''ab'', ''''] \<noteq> []" by simp
  from batch_matches_single [OF h n, of fresh_world fresh_world]
  obtain es where
    b: "fst (embed_batch stub_encoder 8192 (JObj [(''texts'', JArr (map JStr [''ab'', '''']))])
              fresh_world) = Inr (Response 200 (JObj [(''embeddings'', JArr es)]))"
    and l: "length es = length [''ab'', '''']"
    and e: "\<forall>i < length [''ab'', ''''].
        es ! i = tolist ([real (length ([''ab'', ''''] ! i)), 1]) \<and>
        ([''ab'', ''''] ! i \<noteq> [] \<longrightarrow>
           fst (embed stub_encoder 8192 (JObj [(''text'', JStr ([''ab'', ''''] ! i))]) fresh_world) =
             Inr (Response 200 (JObj [(''embedding'', es ! i)])))"
    by blast
  from l obtain a c where es: "es = [a, c]"
    by (cases es; cases "tl es") auto
  from e [rule_format, of 0] e [rule_format, of 1] es
  have "a = JArr [JFloat 2, JFloat 1]" "c = JArr [JFloat 0, JFloat 1]"
    "fst (embed stub_encoder 8192 (JObj [(''text'', JStr ''ab'')]) fresh_world) =
       Inr (Response 200 (JObj [(''embedding'', a)]))"
    by (simp_all add: tolist_def)
  with b es show ?thesis by simp
qed

subsection \<open>The sparse part of a full response\<close>







end
